theory Spec2Isabelle
  imports Complex_Main "HOL-Library.Sublist"
begin

section \<open>Data model\<close>

text \<open>
  The notebook \<^verbatim>\<open>introduction_eda_functions.ipynb\<close> holds four helper functions over
  pandas data frames and Python lists. A data frame is modelled row-major: the ordered list
  of column names and the ordered list of rows, each row carrying its index label and one
  cell per column. A cell is an option: \<open>None\<close> is the missing marker \<^verbatim>\<open>np.nan\<close>,
  \<open>Some v\<close> a present value. Index labels are kept as data of the row, so that an
  operation which renumbers rows would be visible in the model.

  Numbers: the notebook computes on IEEE doubles. The model computes on the reals, i.e. it
  is the exact-arithmetic reading of the same formulas; comparisons, selection of rows and
  of columns are those of the code, rounding is not modelled. What is proved below
  about \<open>feature_cleaner\<close> concerns its row labels, its columns and the rejection of
  fractions, and an evaluation on the docstring's frame with a stated tolerance. Three of
  the functions are embedded: \<open>nan_processor\<close>, \<open>feature_cleaner\<close> and
  \<open>one_hot_encode\<close>. \<open>get_feature\<close> is not: the column it returns is decided by
  comparing ratios of rounded variances, which exact arithmetic does not reproduce.
\<close>

record ('i, 'a) dataframe =
  columns :: "string list"
  rows :: "('i \<times> 'a option list) list"

text \<open>A pandas frame is rectangular: every row has one cell per column.\<close>

definition wf_df :: "('i, 'a) dataframe \<Rightarrow> bool" where
  "wf_df df = list_all (\<lambda>r. length (snd r) = length (columns df)) (rows df)"

text \<open>\<^verbatim>\<open>df.index\<close>: the row labels in row order.\<close>

definition index :: "('i, 'a) dataframe \<Rightarrow> 'i list" where
  "index df = map fst (rows df)"

text \<open>Column \<open>j\<close> of a frame, top to bottom, and the present values of a cell list
  (what pandas reductions see with their default \<^verbatim>\<open>skipna=True\<close>).\<close>

definition column :: "nat \<Rightarrow> ('i, 'a) dataframe \<Rightarrow> 'a option list" where
  "column j df = map (\<lambda>r. snd r ! j) (rows df)"

fun present :: "'a option list \<Rightarrow> 'a list" where
  "present [] = []"
| "present (None # cs) = present cs"
| "present (Some v # cs) = v # present cs"

datatype error = ValueError | KeyError

section \<open>nan_processor\<close>

text \<open>
  \<^verbatim>\<open>tdf = df.replace(replacement_str, np.nan)\<close>
  \<^verbatim>\<open>return tdf.dropna(axis=0, how='any')\<close>

  \<open>replace\<close> turns every cell equal to the given value into the missing marker and
  leaves index and columns alone; \<open>dropna\<close> with \<^verbatim>\<open>axis=0, how='any'\<close> keeps exactly the
  rows without a missing cell, with their labels.
\<close>

definition replace :: "('i, 'a) dataframe \<Rightarrow> 'a \<Rightarrow> ('i, 'a) dataframe" where
  "replace df v =
     df\<lparr>rows := map (\<lambda>r. (fst r, map (\<lambda>c. if c = Some v then None else c) (snd r))) (rows df)\<rparr>"

definition dropna :: "('i, 'a) dataframe \<Rightarrow> ('i, 'a) dataframe" where
  "dropna df = df\<lparr>rows := filter (\<lambda>r. None \<notin> set (snd r)) (rows df)\<rparr>"

definition nan_processor :: "('i, 'a) dataframe \<Rightarrow> 'a \<Rightarrow> ('i, 'a) dataframe" where
  "nan_processor df replacement_str =
     (let tdf = replace df replacement_str in dropna tdf)"

text \<open>A row of the input is kept by \<open>nan_processor\<close> when it has neither a missing cell
  nor a cell equal to the sentinel.\<close>

definition clean_row :: "'a \<Rightarrow> 'i \<times> 'a option list \<Rightarrow> bool" where
  "clean_row s r = (None \<notin> set (snd r) \<and> Some s \<notin> set (snd r))"

section \<open>one_hot_encode\<close>

text \<open>
  \<^verbatim>\<open>return [1 if label_to_encode == label else 0 for label in labels]\<close>
\<close>

definition one_hot_encode :: "string \<Rightarrow> string list \<Rightarrow> int list" where
  "one_hot_encode label_to_encode labels =
     [if label_to_encode = label then 1 else 0. label \<leftarrow> labels]"

section \<open>Cell arithmetic and column statistics\<close>

text \<open>
  Element-wise operations propagate the missing marker, and a comparison with a missing
  operand is false, as for \<^verbatim>\<open>np.nan\<close>. IEEE division by zero gives NaN for a zero
  numerator and an infinity otherwise; the model has no infinities and gives the missing
  marker. The one division of \<open>feature_cleaner\<close>, by the standard deviation, has a zero
  numerator whenever its denominator is zero (lemma \<open>std_zero_numerator\<close> below), so the
  infinite case does not arise in exact arithmetic.
\<close>

fun lt_cell :: "real option \<Rightarrow> real option \<Rightarrow> bool" where
  "lt_cell (Some a) (Some b) = (a < b)"
| "lt_cell _ _ = False"

fun sub_cell :: "real option \<Rightarrow> real option \<Rightarrow> real option" where
  "sub_cell (Some a) (Some b) = Some (a - b)"
| "sub_cell _ _ = None"

fun div_cell :: "real option \<Rightarrow> real option \<Rightarrow> real option" where
  "div_cell (Some a) (Some b) = (if b = 0 then None else Some (a / b))"
| "div_cell _ _ = None"

text \<open>Reductions over the present values of a column. \<open>mean\<close> of no value is NaN;
  \<open>var\<close> and \<open>std\<close> use \<^verbatim>\<open>ddof=1\<close> and are NaN below two values.\<close>

definition mean :: "real list \<Rightarrow> real option" where
  "mean xs = (if xs = [] then None else Some (sum_list xs / real (length xs)))"

definition var :: "real list \<Rightarrow> real option" where
  "var xs =
     (if length xs < 2 then None
      else let avg = sum_list xs / real (length xs)
           in Some (sum_list (map (\<lambda>x. (avg - x)\<^sup>2) xs) / real (length xs - 1)))"

definition std :: "real list \<Rightarrow> real option" where
  "std xs = map_option sqrt (var xs)"

text \<open>A reduction applied to every column of a frame gives a series: one value per
  column, in column order.\<close>

definition reduce_df :: "(real list \<Rightarrow> real option) \<Rightarrow> ('i, real) dataframe \<Rightarrow> real option list" where
  "reduce_df f df = map (\<lambda>j. f (present (column j df))) [0..<length (columns df)]"

section \<open>feature_cleaner\<close>

text \<open>
  \<^verbatim>\<open>DataFrame.quantile\<close> with its default \<^verbatim>\<open>interpolation='linear'\<close>: the value at
  fraction \<open>q\<close> of the sorted present values \<open>s\<close> lies at the real position
  \<open>h = q * (n - 1)\<close>, between \<open>s ! \<lfloor>h\<rfloor>\<close> and its successor. A column without values
  gives NaN.
\<close>

definition percentile :: "real list \<Rightarrow> real \<Rightarrow> real option" where
  "percentile xs q =
     (if xs = [] then None
      else let s = sort xs;
               h = q * real (length xs - 1);
               i = nat \<lfloor>h\<rfloor>
           in if Suc i < length s
              then Some (s ! i + (h - real i) * (s ! Suc i - s ! i))
              else Some (s ! i))"

text \<open>pandas validates the requested fractions first and raises \<^verbatim>\<open>ValueError\<close>
  (``percentiles should all be in the interval [0, 1]'') otherwise. The result has one row
  per fraction and one value per column.\<close>

definition quantile :: "('i, real) dataframe \<Rightarrow> real list \<Rightarrow> error + real option list list" where
  "quantile df qs =
     (if list_all (\<lambda>q. 0 \<le> q \<and> q \<le> 1) qs
      then Inr (map (\<lambda>q. reduce_df (\<lambda>xs. percentile xs q) df) qs)
      else Inl ValueError)"

text \<open>Comparison of a series with a frame (aligned on the columns), conjunction of two
  boolean frames, and indexing a frame by a boolean frame, which keeps the shape and puts
  the missing marker where the mask is false.\<close>

definition series_lt_df :: "real option list \<Rightarrow> ('i, real) dataframe \<Rightarrow> bool list list" where
  "series_lt_df ser df = map (\<lambda>r. map2 lt_cell ser (snd r)) (rows df)"

definition df_lt_series :: "('i, real) dataframe \<Rightarrow> real option list \<Rightarrow> bool list list" where
  "df_lt_series df ser = map (\<lambda>r. map2 lt_cell (snd r) ser) (rows df)"

definition and_mask :: "bool list list \<Rightarrow> bool list list \<Rightarrow> bool list list" where
  "and_mask a b = map2 (map2 (\<and>)) a b"

definition getitem_mask :: "('i, real) dataframe \<Rightarrow> bool list list \<Rightarrow> ('i, real) dataframe" where
  "getitem_mask df msk =
     df\<lparr>rows := map2 (\<lambda>r m. (fst r, map2 (\<lambda>c b. if b then c else None) (snd r) m)) (rows df) msk\<rparr>"

text \<open>Frame minus series and frame divided by series, aligned on the columns.\<close>

definition df_sub_series :: "('i, real) dataframe \<Rightarrow> real option list \<Rightarrow> ('i, real) dataframe" where
  "df_sub_series df ser = df\<lparr>rows := map (\<lambda>r. (fst r, map2 sub_cell (snd r) ser)) (rows df)\<rparr>"

definition df_div_series :: "('i, real) dataframe \<Rightarrow> real option list \<Rightarrow> ('i, real) dataframe" where
  "df_div_series df ser = df\<lparr>rows := map (\<lambda>r. (fst r, map2 div_cell (snd r) ser)) (rows df)\<rparr>"

text \<open>
  \<^verbatim>\<open>quantile = df.quantile([low, high])\<close>
  \<^verbatim>\<open>msk_in_range = (quantile.iloc[0] < df) & (df < quantile.iloc[1])\<close>
  \<^verbatim>\<open>new_df = df[msk_in_range]\<close>
  \<^verbatim>\<open>new_df.dropna(axis=0, how='any', inplace=True)\<close>
  \<^verbatim>\<open>return (new_df - new_df.mean()) / new_df.std()\<close>

  \<open>trimmed\<close> is \<open>new_df\<close> after the in-place \<open>dropna\<close>: the surviving rows with
  their original values.
\<close>

definition msk_in_range :: "('i, real) dataframe \<Rightarrow> real option list list \<Rightarrow> bool list list" where
  "msk_in_range df qt = and_mask (series_lt_df (qt ! 0) df) (df_lt_series df (qt ! 1))"

definition trimmed :: "('i, real) dataframe \<Rightarrow> real option list list \<Rightarrow> ('i, real) dataframe" where
  "trimmed df qt = (let new_df = getitem_mask df (msk_in_range df qt) in dropna new_df)"

definition feature_cleaner :: "('i, real) dataframe \<Rightarrow> real \<Rightarrow> real \<Rightarrow> error + ('i, real) dataframe" where
  "feature_cleaner df low high =
     (case quantile df [low, high] of
        Inl e \<Rightarrow> Inl e
      | Inr qt \<Rightarrow>
          let new_df = trimmed df qt
          in Inr (df_div_series (df_sub_series new_df (reduce_df mean new_df)) (reduce_df std new_df)))"

section \<open>Predicates used in the statements\<close>

text \<open>Cell \<open>j\<close> of a row lies strictly between the two bounds of its column: the cell
  and both bounds are present, and \<open>lo < value < hi\<close>.\<close>

definition inside :: "real option list \<Rightarrow> real option list \<Rightarrow> real option list \<Rightarrow> nat \<Rightarrow> bool" where
  "inside lo hi cs j =
     (case (lo ! j, cs ! j, hi ! j) of
        (Some l, Some v, Some h) \<Rightarrow> l < v \<and> v < h
      | _ \<Rightarrow> False)"

definition strictly_inside :: "real option list \<Rightarrow> real option list \<Rightarrow> 'i \<times> real option list \<Rightarrow> bool" where
  "strictly_inside lo hi r = list_all (inside lo hi (snd r)) [0..<length (snd r)]"

section \<open>The worked examples of the docstrings\<close>

definition testdf :: "(string, real) dataframe" where
  "testdf = \<lparr>columns = [''0'', ''1'', ''2''],
     rows = [(''A'', [Some (1/10), Some (2/10), Some (1/10)]),
             (''B'', [Some 5, Some 10, Some 20]),
             (''C'', [Some (2/10), Some (3/10), Some (5/10)]),
             (''D'', [Some (3/10), Some (2/10), Some (7/10)]),
             (''E'', [Some (-1/10), Some (-2/10), Some (-4/10)]),
             (''F'', [Some (1/10), Some (4/10), Some (3/10)]),
             (''G'', [Some (-5/10), Some (3/10), Some (-2/10)]),
             (''H'', [Some (-10), Some (3/10), Some 1])]\<rparr>"

text \<open>A second numeric frame, with two columns and seven labelled rows.\<close>

definition smalldf :: "(nat, real) dataframe" where
  "smalldf = \<lparr>columns = [''x'', ''y''],
     rows = [(10, [Some 0, Some 5]), (11, [Some 1, Some 3]), (12, [Some 2, Some 6]),
             (13, [Some 3, Some 9]), (14, [Some 4, Some 7]), (15, [Some 2, Some 12]),
             (16, [Some 3, Some 0])]\<rparr>"

text \<open>The output table printed in the \<open>feature_cleaner\<close> docstring, and agreement of a
  frame with such a table: the same row labels in the same order, every cell present and
  closer than \<open>eps\<close> to the printed value.\<close>

definition expected_testdf :: "(string \<times> real list) list" where
  "expected_testdf =
     [(''A'', [191663 / 1000000, - 956183 / 1000000, - 515339 / 1000000]),
      (''C'', [511101 / 1000000, 239046 / 1000000, 629858 / 1000000]),
      (''D'', [830540 / 1000000, - 956183 / 1000000, 1202457 / 1000000]),
      (''F'', [191663 / 1000000, 1434274 / 1000000, 57260 / 1000000]),
      (''G'', [- 1724967 / 1000000, 239046 / 1000000, - 1374236 / 1000000])]"

definition within_tolerance :: "real \<Rightarrow> ('i, real) dataframe \<Rightarrow> ('i \<times> real list) list \<Rightarrow> bool" where
  "within_tolerance eps out expected =
     list_all2 (\<lambda>r e. fst r = fst e \<and>
         list_all2 (\<lambda>c x. case c of None \<Rightarrow> False | Some v \<Rightarrow> \<bar>v - x\<bar> < eps) (snd r) (snd e))
       (rows out) expected"

text \<open>The example of the \<open>nan_processor\<close> docstring (cells as written there), and a
  frame that already holds a missing cell.\<close>

definition sentinel_df :: "(nat, string) dataframe" where
  "sentinel_df = \<lparr>columns = [''A'', ''B'', ''C''],
     rows = [(0, [Some ''0.5'', Some ''0.3'', Some ''blah'']),
             (1, [Some ''0.2'', Some ''0.1'', Some ''5'']),
             (2, [Some ''0.1'', Some ''blah'', Some ''3'']),
             (3, [Some ''0.7'', Some ''0.2'', Some ''1''])]\<rparr>"

definition missing_df :: "(nat, string) dataframe" where
  "missing_df = \<lparr>columns = [''A''], rows = [(0, [None]), (1, [Some ''x''])]\<rparr>"

section \<open>Properties of nan_processor\<close>

lemma replace_row_clean:
  "None \<notin> set (map (\<lambda>c. if c = Some s then None else c) cs) \<longleftrightarrow>
     None \<notin> set cs \<and> Some s \<notin> set cs"
  by (induction cs) auto

lemma replace_row_id:
  "Some s \<notin> set cs \<Longrightarrow> map (\<lambda>c. if c = Some s then None else c) cs = cs"
  by (induction cs) auto

lemma nan_processor_rows:
  "rows (nan_processor df s) = filter (clean_row s) (rows df)"
proof -
  have "filter (\<lambda>r. None \<notin> set (snd r))
          (map (\<lambda>r. (fst r, map (\<lambda>c. if c = Some s then None else c) (snd r))) rs)
        = filter (clean_row s) rs" for rs :: "('a \<times> 'b option list) list"
  proof (induction rs)
    case Nil
    show ?case by simp
  next
    case (Cons r rs)
    show ?case
    proof (cases "clean_row s r")
      case True
      then have "map (\<lambda>c. if c = Some s then None else c) (snd r) = snd r"
        by (simp add: clean_row_def replace_row_id)
      with True Cons show ?thesis
        by (simp add: clean_row_def)
    next
      case False
      then have "None \<in> set (map (\<lambda>c. if c = Some s then None else c) (snd r))"
        using replace_row_clean [of s "snd r"] unfolding clean_row_def by blast
      with False Cons show ?thesis by (simp del: set_map)
    qed
  qed
  then show ?thesis
    by (simp add: nan_processor_def dropna_def replace_def)
qed

lemma nan_processor_columns: "columns (nan_processor df s) = columns df"
  by (simp add: nan_processor_def dropna_def replace_def)

lemma nan_processor_eq:
  "nan_processor df s = df\<lparr>rows := filter (clean_row s) (rows df)\<rparr>"
proof -
  have "nan_processor df s = (nan_processor df s)\<lparr>rows := rows (nan_processor df s)\<rparr>"
    by simp
  also have "\<dots> = df\<lparr>rows := filter (clean_row s) (rows df)\<rparr>"
    unfolding nan_processor_rows
    by (simp add: nan_processor_def dropna_def replace_def)
  finally show ?thesis .
qed

text \<open>
  Claim C4, as the code has it: the output of \<open>nan_processor\<close> holds no missing cell and
  no cell equal to the sentinel, and a row of the input survives, unchanged and in place,
  exactly when none of its cells equals the sentinel and none of its cells is missing.
\<close>

theorem nan_processor_survivors:
  "(\<forall>r \<in> set (rows (nan_processor df s)). None \<notin> set (snd r) \<and> Some s \<notin> set (snd r))
   \<and> rows (nan_processor df s)
       = filter (\<lambda>r. Some s \<notin> set (snd r) \<and> None \<notin> set (snd r)) (rows df)
   \<and> (\<forall>r. r \<in> set (rows (nan_processor df s)) \<longleftrightarrow>
            r \<in> set (rows df) \<and> Some s \<notin> set (snd r) \<and> None \<notin> set (snd r))"
  by (auto simp: nan_processor_rows clean_row_def intro: filter_cong)

text \<open>On the docstring's example rows 1 and 3 survive and row 0 does not.\<close>

theorem nan_processor_survivors_witness:
  "rows (nan_processor sentinel_df ''blah'')
     = [(1, [Some ''0.2'', Some ''0.1'', Some ''5'']), (3, [Some ''0.7'', Some ''0.2'', Some ''1''])]
   \<and> (1, [Some ''0.2'', Some ''0.1'', Some ''5'']) \<in> set (rows sentinel_df)
   \<and> (0, [Some ''0.5'', Some ''0.3'', Some ''blah'']) \<notin> set (rows (nan_processor sentinel_df ''blah''))"
  using nan_processor_survivors [of sentinel_df "''blah''"]
  by (simp add: sentinel_df_def)

text \<open>
  Claim C4 as stated (a row survives iff none of its cells equals the sentinel) fails on a
  row whose cell is already missing: the row holds no sentinel and is dropped all the same.
\<close>

theorem nan_processor_missing_counterexample:
  "(0, [None]) \<in> set (rows missing_df) \<and> Some ''blah'' \<notin> set [None :: string option]
   \<and> (0, [None]) \<notin> set (rows (nan_processor missing_df ''blah''))"
  by (simp add: missing_df_def nan_processor_def dropna_def replace_def)

text \<open>
  Claim C7: \<open>nan_processor\<close> is idempotent for every frame and sentinel.
\<close>

theorem nan_processor_idempotent:
  "nan_processor (nan_processor df s) s = nan_processor df s"
  by (simp add: nan_processor_eq)

section \<open>Properties of one_hot_encode\<close>

lemma one_hot_encode_length: "length (one_hot_encode l labels) = length labels"
  by (simp add: one_hot_encode_def)

lemma one_hot_encode_nth:
  "i < length labels \<Longrightarrow> one_hot_encode l labels ! i = (if labels ! i = l then 1 else 0)"
  by (auto simp: one_hot_encode_def)

lemma one_hot_encode_absent:
  "l \<notin> set labels \<Longrightarrow> one_hot_encode l labels = replicate (length labels) 0"
  by (induction labels) (auto simp: one_hot_encode_def)

lemma one_hot_encode_sum:
  "sum_list (one_hot_encode l labels) = int (count_list labels l)"
  by (induction labels) (auto simp: one_hot_encode_def)

lemma count_list_distinct:
  "distinct xs \<Longrightarrow> count_list xs x = (if x \<in> set xs then 1 else 0)"
  by (induction xs) auto

text \<open>
  Claim C5: for unique candidate labels the result has the length of the candidate list,
  holds 1 at the position of the label and 0 elsewhere (so at most one position holds 1),
  is all zeros when the label is absent, and sums to 1 when the label is present and to 0
  when it is absent; the two examples of the docstring evaluate to \<open>[0,0,1,0]\<close> and
  \<open>[0,0,0,0,0]\<close>.
\<close>

theorem one_hot_encode_unique_labels:
  "(\<forall>l labels. distinct labels \<longrightarrow>
      length (one_hot_encode l labels) = length labels
    \<and> (\<forall>i < length labels. one_hot_encode l labels ! i = (if labels ! i = l then 1 else 0))
    \<and> (\<forall>i < length labels. \<forall>k < length labels.
          one_hot_encode l labels ! i = 1 \<and> one_hot_encode l labels ! k = 1 \<longrightarrow> i = k)
    \<and> (l \<notin> set labels \<longrightarrow> one_hot_encode l labels = replicate (length labels) 0)
    \<and> sum_list (one_hot_encode l labels) = (if l \<in> set labels then 1 else 0))
   \<and> one_hot_encode ''pink'' [''blue'', ''red'', ''pink'', ''yellow''] = [0, 0, 1, 0]
   \<and> one_hot_encode ''f'' [''a'', ''b'', ''c'', ''d'', ''e''] = [0, 0, 0, 0, 0]"
proof -
  have gen: "length (one_hot_encode l labels) = length labels
    \<and> (\<forall>i < length labels. one_hot_encode l labels ! i = (if labels ! i = l then 1 else 0))
    \<and> (\<forall>i < length labels. \<forall>k < length labels.
          one_hot_encode l labels ! i = 1 \<and> one_hot_encode l labels ! k = 1 \<longrightarrow> i = k)
    \<and> (l \<notin> set labels \<longrightarrow> one_hot_encode l labels = replicate (length labels) 0)
    \<and> sum_list (one_hot_encode l labels) = (if l \<in> set labels then 1 else 0)"
    if d: "distinct labels" for l labels
  proof -
    have "i = k" if i: "i < length labels" and k: "k < length labels"
      and one: "one_hot_encode l labels ! i = 1" "one_hot_encode l labels ! k = 1" for i k
    proof -
      from i k one have "labels ! i = l" "labels ! k = l"
        by (auto simp: one_hot_encode_nth split: if_splits)
      then have "labels ! i = labels ! k" by simp
      with d i k show "i = k"
        using nth_eq_iff_index_eq by blast
    qed
    moreover have "sum_list (one_hot_encode l labels) = (if l \<in> set labels then 1 else 0)"
      using d by (simp add: one_hot_encode_sum count_list_distinct)
    ultimately show ?thesis
      by (simp add: one_hot_encode_length one_hot_encode_nth one_hot_encode_absent)
  qed
  have "one_hot_encode ''pink'' [''blue'', ''red'', ''pink'', ''yellow''] = [0, 0, 1, 0]"
    by (simp add: one_hot_encode_def)
  moreover have "one_hot_encode ''f'' [''a'', ''b'', ''c'', ''d'', ''e''] = [0, 0, 0, 0, 0]"
    by (simp add: one_hot_encode_def)
  ultimately show ?thesis using gen by blast
qed

theorem one_hot_encode_unique_labels_witness:
  "distinct [''a'', ''b'', ''c'', ''d'', ''e'']
   \<and> one_hot_encode ''b'' [''a'', ''b'', ''c'', ''d'', ''e''] = [0, 1, 0, 0, 0]
   \<and> length (one_hot_encode ''b'' [''a'', ''b'', ''c'', ''d'', ''e'']) = 5
   \<and> sum_list (one_hot_encode ''b'' [''a'', ''b'', ''c'', ''d'', ''e'']) = 1"
proof -
  have d: "distinct [''a'', ''b'', ''c'', ''d'', ''e'']" by simp
  have e: "one_hot_encode ''b'' [''a'', ''b'', ''c'', ''d'', ''e''] = [0, 1, 0, 0, 0]"
    by (simp add: one_hot_encode_def)
  from one_hot_encode_unique_labels d
  have "length (one_hot_encode ''b'' [''a'', ''b'', ''c'', ''d'', ''e''])
          = length [''a'', ''b'', ''c'', ''d'', ''e'']
      \<and> sum_list (one_hot_encode ''b'' [''a'', ''b'', ''c'', ''d'', ''e''])
          = (if ''b'' \<in> set [''a'', ''b'', ''c'', ''d'', ''e''] then 1 else 0)"
    by blast
  with d e show ?thesis by simp
qed

text \<open>
  Claim C10: for every candidate list, duplicates included, the result has a 1 at every
  position whose candidate equals the label and 0 elsewhere, so the number of ones is the
  number of occurrences of the label. The function is total: it returns a list for every
  label and every list, the empty list included.
\<close>

theorem one_hot_encode_all_matches:
  "length (one_hot_encode l labels) = length labels
   \<and> (\<forall>i < length labels. one_hot_encode l labels ! i = (if labels ! i = l then 1 else 0))
   \<and> sum_list (one_hot_encode l labels) = int (count_list labels l)
   \<and> one_hot_encode ''a'' [''a'', ''b'', ''a''] = [1, 0, 1]
   \<and> one_hot_encode l [] = []"
  by (simp add: one_hot_encode_length one_hot_encode_nth one_hot_encode_sum)
     (simp add: one_hot_encode_def)

theorem one_hot_encode_all_matches_witness:
  "length (one_hot_encode ''x'' [''x'', ''y'', ''x'', ''x'']) = 4
   \<and> one_hot_encode ''x'' [''x'', ''y'', ''x'', ''x''] ! 0 = 1
   \<and> one_hot_encode ''x'' [''x'', ''y'', ''x'', ''x''] ! 1 = 0
   \<and> one_hot_encode ''x'' [''x'', ''y'', ''x'', ''x''] ! 2 = 1
   \<and> one_hot_encode ''x'' [''x'', ''y'', ''x'', ''x''] ! 3 = 1
   \<and> sum_list (one_hot_encode ''x'' [''x'', ''y'', ''x'', ''x'']) = 3"
proof -
  note t = one_hot_encode_all_matches [of "''x''" "[''x'', ''y'', ''x'', ''x'']"]
  from t have n: "\<forall>i < 4. one_hot_encode ''x'' [''x'', ''y'', ''x'', ''x''] ! i
                    = (if [''x'', ''y'', ''x'', ''x''] ! i = ''x'' then 1 else 0)"
    by simp
  have "one_hot_encode ''x'' [''x'', ''y'', ''x'', ''x''] ! 0 = 1"
       "one_hot_encode ''x'' [''x'', ''y'', ''x'', ''x''] ! 1 = 0"
       "one_hot_encode ''x'' [''x'', ''y'', ''x'', ''x''] ! 2 = 1"
       "one_hot_encode ''x'' [''x'', ''y'', ''x'', ''x''] ! 3 = 1"
    using n by simp_all
  moreover from t have "length (one_hot_encode ''x'' [''x'', ''y'', ''x'', ''x'']) = 4"
    and "sum_list (one_hot_encode ''x'' [''x'', ''y'', ''x'', ''x'']) = 3"
    by simp_all
  ultimately show ?thesis by simp
qed

section \<open>Properties of feature_cleaner\<close>

lemma map2_same: "map2 f (map g xs) (map h xs) = map (\<lambda>x. f (g x) (h x)) xs"
  by (induction xs) auto

lemma map2_same_left: "map2 f xs (map h xs) = map (\<lambda>x. f x (h x)) xs"
  by (induction xs) auto

lemma inside_lt_cell:
  "inside lo hi cs j \<longleftrightarrow> lt_cell (lo ! j) (cs ! j) \<and> lt_cell (cs ! j) (hi ! j)"
  by (cases "lo ! j"; cases "cs ! j"; cases "hi ! j") (simp_all add: inside_def)

lemma masked_row_nth:
  assumes "length lo = length cs" "length hi = length cs"
  shows "map2 (\<lambda>c b. if b then c else None) cs
           (map2 (\<and>) (map2 lt_cell lo cs) (map2 lt_cell cs hi))
         = map (\<lambda>j. if inside lo hi cs j then cs ! j else None) [0..<length cs]"
proof (rule nth_equalityI)
  show "length (map2 (\<lambda>c b. if b then c else None) cs
           (map2 (\<and>) (map2 lt_cell lo cs) (map2 lt_cell cs hi)))
        = length (map (\<lambda>j. if inside lo hi cs j then cs ! j else None) [0..<length cs])"
    using assms by simp
next
  fix i
  assume "i < length (map2 (\<lambda>c b. if b then c else None) cs
           (map2 (\<and>) (map2 lt_cell lo cs) (map2 lt_cell cs hi)))"
  with assms have i: "i < length cs" by simp
  with assms show "map2 (\<lambda>c b. if b then c else None) cs
           (map2 (\<and>) (map2 lt_cell lo cs) (map2 lt_cell cs hi)) ! i
        = map (\<lambda>j. if inside lo hi cs j then cs ! j else None) [0..<length cs] ! i"
    by (simp add: inside_lt_cell)
qed

lemma inside_present: "inside lo hi cs j \<Longrightarrow> cs ! j \<noteq> None"
  by (cases "lo ! j"; cases "cs ! j"; cases "hi ! j") (simp_all add: inside_def)

lemma masked_row_clean:
  "None \<notin> set (map (\<lambda>j. if inside lo hi cs j then cs ! j else None) [0..<length cs])
     \<longleftrightarrow> list_all (inside lo hi cs) [0..<length cs]"
proof
  assume a: "None \<notin> set (map (\<lambda>j. if inside lo hi cs j then cs ! j else None) [0..<length cs])"
  have "inside lo hi cs j" if "j < length cs" for j
  proof (rule ccontr)
    assume "\<not> inside lo hi cs j"
    then have e: "None = (\<lambda>j. if inside lo hi cs j then cs ! j else None) j" by simp
    from that have "j \<in> {0..<length cs}" by simp
    with e have "None \<in> (\<lambda>j. if inside lo hi cs j then cs ! j else None) ` {0..<length cs}"
      by (rule image_eqI)
    with a show False by simp
  qed
  then show "list_all (inside lo hi cs) [0..<length cs]"
    by (simp add: list_all_iff)
next
  assume a: "list_all (inside lo hi cs) [0..<length cs]"
  show "None \<notin> set (map (\<lambda>j. if inside lo hi cs j then cs ! j else None) [0..<length cs])"
  proof
    assume "None \<in> set (map (\<lambda>j. if inside lo hi cs j then cs ! j else None) [0..<length cs])"
    then obtain j where j: "j < length cs"
      and n: "(if inside lo hi cs j then cs ! j else None) = None"
      by auto
    from a j have "inside lo hi cs j" by (simp add: list_all_iff)
    with n inside_present [of lo hi cs j] show False by simp
  qed
qed

lemma masked_row_id:
  assumes "list_all (inside lo hi cs) [0..<length cs]"
  shows "map (\<lambda>j. if inside lo hi cs j then cs ! j else None) [0..<length cs] = cs"
proof (rule nth_equalityI)
  show "length (map (\<lambda>j. if inside lo hi cs j then cs ! j else None) [0..<length cs]) = length cs"
    by simp
next
  fix i
  assume "i < length (map (\<lambda>j. if inside lo hi cs j then cs ! j else None) [0..<length cs])"
  then have i: "i < length cs" by simp
  with assms have "inside lo hi cs i" by (simp add: list_all_iff)
  with i show "map (\<lambda>j. if inside lo hi cs j then cs ! j else None) [0..<length cs] ! i = cs ! i"
    by simp
qed

lemma getitem_mask_rows:
  assumes wf: "wf_df df"
    and lo: "length lo = length (columns df)" and hi: "length hi = length (columns df)"
  shows "rows (getitem_mask df (msk_in_range df [lo, hi]))
         = map (\<lambda>r. (fst r, map (\<lambda>j. if inside lo hi (snd r) j then snd r ! j else None)
                               [0..<length (columns df)])) (rows df)"
proof -
  have len: "length (snd r) = length (columns df)" if "r \<in> set (rows df)" for r
    using wf that by (simp add: wf_df_def list_all_iff)
  have "rows (getitem_mask df (msk_in_range df [lo, hi]))
        = map (\<lambda>r. (fst r, map2 (\<lambda>c b. if b then c else None) (snd r)
             (map2 (\<and>) (map2 lt_cell lo (snd r)) (map2 lt_cell (snd r) hi)))) (rows df)"
    by (simp add: getitem_mask_def msk_in_range_def and_mask_def series_lt_df_def
        df_lt_series_def map2_same map2_same_left)
  also have "\<dots> = map (\<lambda>r. (fst r, map (\<lambda>j. if inside lo hi (snd r) j then snd r ! j else None)
                               [0..<length (columns df)])) (rows df)"
  proof (rule map_cong [OF refl])
    fix r assume r: "r \<in> set (rows df)"
    show "(fst r, map2 (\<lambda>c b. if b then c else None) (snd r)
             (map2 (\<and>) (map2 lt_cell lo (snd r)) (map2 lt_cell (snd r) hi)))
        = (fst r, map (\<lambda>j. if inside lo hi (snd r) j then snd r ! j else None)
                               [0..<length (columns df)])"
      using masked_row_nth [of lo "snd r" hi] len [OF r] lo hi by simp
  qed
  finally show ?thesis .
qed

lemma trimmed_rows:
  assumes wf: "wf_df df"
    and lo: "length lo = length (columns df)" and hi: "length hi = length (columns df)"
  shows "rows (trimmed df [lo, hi]) = filter (strictly_inside lo hi) (rows df)"
proof -
  define f :: "'a \<times> real option list \<Rightarrow> 'a \<times> real option list" where
    "f = (\<lambda>r. (fst r, map (\<lambda>j. if inside lo hi (snd r) j then snd r ! j else None)
                               [0..<length (columns df)]))"
  have len: "length (snd r) = length (columns df)" if "r \<in> set (rows df)" for r
    using wf that by (simp add: wf_df_def list_all_iff)
  have keep: "None \<notin> set (snd (f r)) \<longleftrightarrow> strictly_inside lo hi r"
    if "r \<in> set (rows df)" for r
    using masked_row_clean [of lo hi "snd r"] len [OF that]
    by (simp add: f_def strictly_inside_def del: set_map)
  have same: "f r = r" if "r \<in> set (rows df)" "strictly_inside lo hi r" for r
    using masked_row_id [of lo hi "snd r"] len [OF that(1)] that(2)
    by (simp add: f_def strictly_inside_def prod_eq_iff)
  have "rows (trimmed df [lo, hi]) = filter (\<lambda>r. None \<notin> set (snd r)) (map f (rows df))"
    using getitem_mask_rows [OF wf lo hi] by (simp add: trimmed_def dropna_def f_def)
  also have "\<dots> = map f (filter (\<lambda>r. None \<notin> set (snd (f r))) (rows df))"
    by (simp add: filter_map comp_def)
  also have "filter (\<lambda>r. None \<notin> set (snd (f r))) (rows df)
             = filter (strictly_inside lo hi) (rows df)"
    by (rule filter_cong [OF refl]) (rule keep)
  also have "map f (filter (strictly_inside lo hi) (rows df))
             = filter (strictly_inside lo hi) (rows df)"
    by (rule map_idI) (simp add: same)
  finally show ?thesis .
qed

lemma trimmed_columns: "columns (trimmed df qt) = columns df"
  by (simp add: trimmed_def dropna_def getitem_mask_def)

lemma quantile_ok:
  "0 \<le> low \<Longrightarrow> low \<le> 1 \<Longrightarrow> 0 \<le> high \<Longrightarrow> high \<le> 1 \<Longrightarrow>
   quantile df [low, high] =
     Inr [map (\<lambda>j. percentile (present (column j df)) low) [0..<length (columns df)],
          map (\<lambda>j. percentile (present (column j df)) high) [0..<length (columns df)] ]"
  by (simp add: quantile_def reduce_df_def)

lemma quantile_error:
  "\<not> (0 \<le> low \<and> low \<le> 1 \<and> 0 \<le> high \<and> high \<le> 1) \<Longrightarrow> quantile df [low, high] = Inl ValueError"
  by (auto simp: quantile_def)

lemma feature_cleaner_Inr:
  "quantile df [low, high] = Inr qt \<Longrightarrow>
   feature_cleaner df low high =
     Inr (df_div_series (df_sub_series (trimmed df qt) (reduce_df mean (trimmed df qt)))
            (reduce_df std (trimmed df qt)))"
  by (simp add: feature_cleaner_def Let_def)

lemma standardize_index:
  "index (df_div_series (df_sub_series d m) s) = index d"
  by (simp add: index_def df_div_series_def df_sub_series_def comp_def)

lemma standardize_columns:
  "columns (df_div_series (df_sub_series d m) s) = columns d"
  by (simp add: df_div_series_def df_sub_series_def)

lemma sum_list_pos_member:
  assumes "x \<in> set xs" "0 < f x" "\<And>y. 0 \<le> (f y :: real)"
  shows "0 < sum_list (map f xs)"
  using assms(1)
proof (induction xs)
  case Nil
  then show ?case by simp
next
  case (Cons a xs)
  have nn: "0 \<le> sum_list (map f xs)"
    by (rule sum_list_nonneg) (auto simp: assms(3))
  show ?case
  proof (cases "x = a")
    case True
    with assms(2) nn show ?thesis by simp
  next
    case False
    with Cons have "0 < sum_list (map f xs)" by simp
    with assms(3) [of a] show ?thesis by simp
  qed
qed

text \<open>Division by zero has a zero numerator.\<close>

lemma sum_list_zero_member:
  assumes "sum_list (map f xs) = 0" "\<And>y. 0 \<le> (f y :: real)" "x \<in> set xs"
  shows "f x = 0"
proof (rule ccontr)
  assume "f x \<noteq> 0"
  with assms(2) [of x] have "0 < f x" by simp
  with assms(2,3) have "0 < sum_list (map f xs)"
    by (intro sum_list_pos_member [where x = x and f = f]) simp_all
  with assms(1) show False by simp
qed

lemma var_zero_constant:
  assumes "var xs = Some 0" "x \<in> set xs"
  shows "x = sum_list xs / real (length xs)"
proof -
  from assms(1) have len: "2 \<le> length xs" by (auto simp: var_def split: if_splits)
  with assms(1) have "sum_list (map (\<lambda>x. (sum_list xs / real (length xs) - x)\<^sup>2) xs) = 0"
    by (simp add: var_def Let_def)
  with assms(2) have "(sum_list xs / real (length xs) - x)\<^sup>2 = 0"
    by (intro sum_list_zero_member
        [where f = "\<lambda>x. (sum_list xs / real (length xs) - x)\<^sup>2" and xs = xs]) simp_all
  then show ?thesis by simp
qed

lemma std_zero_numerator:
  assumes "std xs = Some 0" "mean xs = Some m" "x \<in> set xs"
  shows "x - m = 0"
proof -
  from assms(1) have "var xs = Some 0" by (auto simp: std_def)
  from var_zero_constant [OF this assms(3)] assms(2) show ?thesis
    by (auto simp: mean_def split: if_splits)
qed

lemma reduce_df_length: "length (reduce_df f d) = length (columns d)"
  by (simp add: reduce_df_def)

lemma quantile_Inr:
  assumes "quantile df [low, high] = Inr qt"
  shows "qt = [reduce_df (\<lambda>xs. percentile xs low) df, reduce_df (\<lambda>xs. percentile xs high) df]"
    and "0 \<le> low \<and> low \<le> 1 \<and> 0 \<le> high \<and> high \<le> 1"
  using assms by (auto simp: quantile_def split: if_splits)

lemma quantile_small:
  "quantile smalldf [1/10, 9/10] = Inr [ [Some (3/5), Some (9/5)], [Some (17/5), Some (51/5)] ]"
  by (simp add: smalldf_def quantile_def reduce_df_def column_def percentile_def upt_rec)

lemma reduce_percentile_small:
  "reduce_df (\<lambda>xs. percentile xs (1/10)) smalldf = [Some (3/5), Some (9/5)]"
  "reduce_df (\<lambda>xs. percentile xs (9/10)) smalldf = [Some (17/5), Some (51/5)]"
  by (simp_all add: smalldf_def reduce_df_def column_def percentile_def upt_rec)

lemma wf_small: "wf_df smalldf"
  by (simp add: smalldf_def wf_df_def)

lemma div_between:
  fixes d s sL sU :: real
  assumes "0 < d" "0 < sL" "sL < s" "s < sU"
  shows "d / sU < d / s" and "d / s < d / sL"
  using assms by (simp_all add: divide_strict_left_mono)

lemma z_close_pos:
  fixes d v sL sU lit eps :: real
  assumes "0 < d" "0 < sL" "sL\<^sup>2 < v" "v < sU\<^sup>2" "0 < sU"
    and "lit - eps \<le> d / sU" "d / sL \<le> lit + eps"
  shows "\<bar>d / sqrt v - lit\<bar> < eps"
proof -
  from assms(3) have l: "sL < sqrt v" by (rule real_less_rsqrt)
  from assms(5) have "0 \<le> sU" by simp
  with assms(4) have u: "sqrt v < sU" by (intro real_less_lsqrt) simp_all
  from div_between [OF assms(1,2) l u] assms(6,7) show ?thesis
    by linarith
qed

lemma z_close_neg:
  fixes d v sL sU lit eps :: real
  assumes "d < 0" "0 < sL" "sL\<^sup>2 < v" "v < sU\<^sup>2" "0 < sU"
    and "lit - eps \<le> d / sL" "d / sU \<le> lit + eps"
  shows "\<bar>d / sqrt v - lit\<bar> < eps"
proof -
  from assms(1) have "0 < - d" by simp
  from z_close_pos [OF this assms(2-5), of "- lit" eps] assms(6,7)
  have "\<bar>- d / sqrt v - (- lit)\<bar> < eps" by simp
  then show ?thesis by (simp add: abs_if split: if_splits)
qed

lemma quantile_testdf:
  "quantile testdf [1/100, 99/100] =
     Inr [ [Some (- (1867 / 200)), Some (- (43 / 250)), Some (- (193 / 500))],
          [Some (4671 / 1000), Some (1166 / 125), Some (1867 / 100)] ]"
  by (simp add: testdf_def quantile_def reduce_df_def column_def percentile_def upt_rec)

lemma trimmed_testdf:
  "trimmed testdf [ [Some (- (1867 / 200)), Some (- (43 / 250)), Some (- (193 / 500))],
          [Some (4671 / 1000), Some (1166 / 125), Some (1867 / 100)] ]
   = \<lparr>columns = [''0'', ''1'', ''2''],
      rows = [(''A'', [Some (1/10), Some (2/10), Some (1/10)]),
              (''C'', [Some (2/10), Some (3/10), Some (5/10)]),
              (''D'', [Some (3/10), Some (2/10), Some (7/10)]),
              (''F'', [Some (1/10), Some (4/10), Some (3/10)]),
              (''G'', [Some (-5/10), Some (3/10), Some (-2/10)])]\<rparr>"
  by (simp add: testdf_def trimmed_def msk_in_range_def and_mask_def series_lt_df_def
      df_lt_series_def getitem_mask_def dropna_def)

lemma mean_trimmed_testdf:
  "reduce_df mean \<lparr>columns = [''0'', ''1'', ''2''],
      rows = [(''A'', [Some (1/10), Some (2/10), Some (1/10)]),
              (''C'', [Some (2/10), Some (3/10), Some (5/10)]),
              (''D'', [Some (3/10), Some (2/10), Some (7/10)]),
              (''F'', [Some (1/10), Some (4/10), Some (3/10)]),
              (''G'', [Some (-5/10), Some (3/10), Some (-2/10)])]\<rparr>
   = [Some (1/25), Some (7/25), Some (7/25 :: real)]"
  by (simp add: reduce_df_def column_def mean_def upt_rec)

lemma std_trimmed_testdf:
  "reduce_df std \<lparr>columns = [''0'', ''1'', ''2''],
      rows = [(''A'', [Some (1/10), Some (2/10), Some (1/10)]),
              (''C'', [Some (2/10), Some (3/10), Some (5/10)]),
              (''D'', [Some (3/10), Some (2/10), Some (7/10)]),
              (''F'', [Some (1/10), Some (4/10), Some (3/10)]),
              (''G'', [Some (-5/10), Some (3/10), Some (-2/10)])]\<rparr>
   = [Some (sqrt (49/500)), Some (sqrt (7/1000)), Some (sqrt (61/500))]"
  by (simp add: reduce_df_def column_def std_def var_def upt_rec power2_eq_square)

lemma feature_cleaner_testdf:
  "feature_cleaner testdf (1/100) (99/100) =
     Inr \<lparr>columns = [''0'', ''1'', ''2''],
      rows = [(''A'', [Some (3/50 / sqrt (49/500)), Some (-2/25 / sqrt (7/1000)), Some (-9/50 / sqrt (61/500))]),
              (''C'', [Some (4/25 / sqrt (49/500)), Some (1/50 / sqrt (7/1000)), Some (11/50 / sqrt (61/500))]),
              (''D'', [Some (13/50 / sqrt (49/500)), Some (-2/25 / sqrt (7/1000)), Some (21/50 / sqrt (61/500))]),
              (''F'', [Some (3/50 / sqrt (49/500)), Some (3/25 / sqrt (7/1000)), Some (1/50 / sqrt (61/500))]),
              (''G'', [Some (-27/50 / sqrt (49/500)), Some (1/50 / sqrt (7/1000)), Some (-12/25 / sqrt (61/500))])]\<rparr>"
  unfolding feature_cleaner_def quantile_testdf sum.case Let_def trimmed_testdf
    mean_trimmed_testdf std_trimmed_testdf
  by (simp add: df_div_series_def df_sub_series_def)

lemma z_column_0:
  shows "\<bar>3 / 50 / sqrt (49 / 500) - (191663 / 1000000)\<bar> < (1 / 2000000 :: real)"
    and "\<bar>4 / 25 / sqrt (49 / 500) - (511101 / 1000000)\<bar> < (1 / 2000000 :: real)"
    and "\<bar>13 / 50 / sqrt (49 / 500) - (830540 / 1000000)\<bar> < (1 / 2000000 :: real)"
    and "\<bar>- 27 / 50 / sqrt (49 / 500) - (- 1724967 / 1000000)\<bar> < (1 / 2000000 :: real)"
  subgoal by (rule z_close_pos [where sL = "313049516849 / 1000000000000" and sU = "313049516850 / 1000000000000"])
      (simp_all add: power2_eq_square)
  subgoal by (rule z_close_pos [where sL = "313049516849 / 1000000000000" and sU = "313049516850 / 1000000000000"])
      (simp_all add: power2_eq_square)
  subgoal by (rule z_close_pos [where sL = "313049516849 / 1000000000000" and sU = "313049516850 / 1000000000000"])
      (simp_all add: power2_eq_square)
  subgoal by (rule z_close_neg [where sL = "313049516849 / 1000000000000" and sU = "313049516850 / 1000000000000"])
      (simp_all add: power2_eq_square)
  done

lemma z_column_1:
  shows "\<bar>- 2 / 25 / sqrt (7 / 1000) - (- 956183 / 1000000)\<bar> < (1 / 2000000 :: real)"
    and "\<bar>1 / 50 / sqrt (7 / 1000) - (239046 / 1000000)\<bar> < (1 / 2000000 :: real)"
    and "\<bar>3 / 25 / sqrt (7 / 1000) - (1434274 / 1000000)\<bar> < (1 / 2000000 :: real)"
  subgoal by (rule z_close_neg [where sL = "83666002653 / 1000000000000" and sU = "83666002654 / 1000000000000"])
      (simp_all add: power2_eq_square)
  subgoal by (rule z_close_pos [where sL = "83666002653 / 1000000000000" and sU = "83666002654 / 1000000000000"])
      (simp_all add: power2_eq_square)
  subgoal by (rule z_close_pos [where sL = "83666002653 / 1000000000000" and sU = "83666002654 / 1000000000000"])
      (simp_all add: power2_eq_square)
  done

lemma z_column_2:
  shows "\<bar>- 9 / 50 / sqrt (61 / 500) - (- 515339 / 1000000)\<bar> < (1 / 2000000 :: real)"
    and "\<bar>11 / 50 / sqrt (61 / 500) - (629858 / 1000000)\<bar> < (1 / 2000000 :: real)"
    and "\<bar>21 / 50 / sqrt (61 / 500) - (1202457 / 1000000)\<bar> < (1 / 2000000 :: real)"
    and "\<bar>1 / 50 / sqrt (61 / 500) - (57260 / 1000000)\<bar> < (1 / 2000000 :: real)"
    and "\<bar>- 12 / 25 / sqrt (61 / 500) - (- 1374236 / 1000000)\<bar> < (1 / 2000000 :: real)"
  subgoal by (rule z_close_neg [where sL = "349284983931 / 1000000000000" and sU = "349284983932 / 1000000000000"])
      (simp_all add: power2_eq_square)
  subgoal by (rule z_close_pos [where sL = "349284983931 / 1000000000000" and sU = "349284983932 / 1000000000000"])
      (simp_all add: power2_eq_square)
  subgoal by (rule z_close_pos [where sL = "349284983931 / 1000000000000" and sU = "349284983932 / 1000000000000"])
      (simp_all add: power2_eq_square)
  subgoal by (rule z_close_pos [where sL = "349284983931 / 1000000000000" and sU = "349284983932 / 1000000000000"])
      (simp_all add: power2_eq_square)
  subgoal by (rule z_close_neg [where sL = "349284983931 / 1000000000000" and sU = "349284983932 / 1000000000000"])
      (simp_all add: power2_eq_square)
  done

lemma tol_testdf:
  "within_tolerance (1 / 2000000) \<lparr>columns = [''0'', ''1'', ''2''],
      rows = [(''A'', [Some (3/50 / sqrt (49/500)), Some (-2/25 / sqrt (7/1000)), Some (-9/50 / sqrt (61/500))]),
              (''C'', [Some (4/25 / sqrt (49/500)), Some (1/50 / sqrt (7/1000)), Some (11/50 / sqrt (61/500))]),
              (''D'', [Some (13/50 / sqrt (49/500)), Some (-2/25 / sqrt (7/1000)), Some (21/50 / sqrt (61/500))]),
              (''F'', [Some (3/50 / sqrt (49/500)), Some (3/25 / sqrt (7/1000)), Some (1/50 / sqrt (61/500))]),
              (''G'', [Some (-27/50 / sqrt (49/500)), Some (1/50 / sqrt (7/1000)), Some (-12/25 / sqrt (61/500))])]\<rparr>
     expected_testdf"
  unfolding within_tolerance_def expected_testdf_def
  apply (simp only: dataframe.simps list_all2_Cons list_all2_Nil fst_conv snd_conv option.case simp_thms)
  apply (intro conjI)
  apply (rule z_column_0 z_column_1 z_column_2)+
  done

text \<open>
  Claim C6: on the 8-row frame of the docstring with \<open>low = 0.01\<close> and \<open>high = 0.99\<close>,
  \<open>feature_cleaner\<close> returns a frame with the rows A, C, D, F, G (rows B, E, H are
  dropped), and each of its cells differs from the value printed in the docstring by less
  than \<open>5 * 10^-7\<close>, half a unit of the last printed digit.
\<close>

theorem feature_cleaner_worked_example:
  "\<exists>out. feature_cleaner testdf (1/100) (99/100) = Inr out
     \<and> columns out = columns testdf
     \<and> index testdf = [''A'', ''B'', ''C'', ''D'', ''E'', ''F'', ''G'', ''H'']
     \<and> index out = [''A'', ''C'', ''D'', ''F'', ''G'']
     \<and> filter (\<lambda>i. i \<notin> set (index out)) (index testdf) = [''B'', ''E'', ''H'']
     \<and> within_tolerance (1 / 2000000) out expected_testdf"
proof -
  define out :: "(string, real) dataframe" where "out = \<lparr>columns = [''0'', ''1'', ''2''],
      rows = [(''A'', [Some (3/50 / sqrt (49/500)), Some (-2/25 / sqrt (7/1000)), Some (-9/50 / sqrt (61/500))]),
              (''C'', [Some (4/25 / sqrt (49/500)), Some (1/50 / sqrt (7/1000)), Some (11/50 / sqrt (61/500))]),
              (''D'', [Some (13/50 / sqrt (49/500)), Some (-2/25 / sqrt (7/1000)), Some (21/50 / sqrt (61/500))]),
              (''F'', [Some (3/50 / sqrt (49/500)), Some (3/25 / sqrt (7/1000)), Some (1/50 / sqrt (61/500))]),
              (''G'', [Some (-27/50 / sqrt (49/500)), Some (1/50 / sqrt (7/1000)), Some (-12/25 / sqrt (61/500))])]\<rparr>"
  have fc: "feature_cleaner testdf (1/100) (99/100) = Inr out"
    unfolding out_def by (rule feature_cleaner_testdf)
  have cols: "columns out = columns testdf"
    by (simp add: out_def testdf_def)
  have idx: "index testdf = [''A'', ''B'', ''C'', ''D'', ''E'', ''F'', ''G'', ''H'']"
    by (simp add: index_def testdf_def)
  have idx_out: "index out = [''A'', ''C'', ''D'', ''F'', ''G'']"
    by (simp add: index_def out_def)
  have dropped: "filter (\<lambda>i. i \<notin> set (index out)) (index testdf) = [''B'', ''E'', ''H'']"
    unfolding idx idx_out by simp
  have tol: "within_tolerance (1 / 2000000) out expected_testdf"
    unfolding out_def by (rule tol_testdf)
  from fc cols idx idx_out dropped tol show ?thesis by blast
qed

text \<open>
  Claim C8: \<open>nan_processor\<close> and \<open>feature_cleaner\<close> leave the column list unchanged, and
  the labels of their output rows are the labels of the surviving input rows, unchanged
  and in input order (a subsequence of the input index).
\<close>

theorem filters_preserve_index_and_columns:
  "columns (nan_processor t s) = columns t
   \<and> rows (nan_processor t s) = filter (clean_row s) (rows t)
   \<and> index (nan_processor t s) = map fst (filter (clean_row s) (rows t))
   \<and> subseq (index (nan_processor t s)) (index t)
   \<and> (wf_df df \<and> feature_cleaner df low high = Inr out \<longrightarrow>
        columns out = columns df
      \<and> subseq (index out) (index df)
      \<and> (\<exists>lo hi. quantile df [low, high] = Inr [lo, hi]
            \<and> index out = map fst (filter (strictly_inside lo hi) (rows df))))"
proof -
  have np: "subseq (index (nan_processor t s)) (index t)"
    by (simp add: index_def nan_processor_rows subseq_map)
  have fc: "columns out = columns df
      \<and> subseq (index out) (index df)
      \<and> (\<exists>lo hi. quantile df [low, high] = Inr [lo, hi]
            \<and> index out = map fst (filter (strictly_inside lo hi) (rows df)))"
    if wf: "wf_df df" and out: "feature_cleaner df low high = Inr out"
  proof -
    from out obtain qt where q: "quantile df [low, high] = Inr qt"
      by (cases "quantile df [low, high]") (simp_all add: feature_cleaner_def)
    define lo where "lo = reduce_df (\<lambda>xs. percentile xs low) df"
    define hi where "hi = reduce_df (\<lambda>xs. percentile xs high) df"
    from quantile_Inr(1) [OF q] have qt: "qt = [lo, hi]" by (simp add: lo_def hi_def)
    have len: "length lo = length (columns df)" "length hi = length (columns df)"
      by (simp_all add: lo_def hi_def reduce_df_length)
    from out feature_cleaner_Inr [OF q]
    have o: "out = df_div_series (df_sub_series (trimmed df qt) (reduce_df mean (trimmed df qt)))
                     (reduce_df std (trimmed df qt))"
      by simp
    have c: "columns out = columns df"
      by (simp add: o standardize_columns trimmed_columns)
    have "index out = index (trimmed df qt)"
      unfolding o by (rule standardize_index)
    then have i: "index out = map fst (filter (strictly_inside lo hi) (rows df))"
      by (simp add: index_def qt trimmed_rows [OF wf len])
    then have "subseq (index out) (index df)"
      by (simp add: index_def subseq_map)
    with c i q qt show ?thesis by blast
  qed
  from np fc show ?thesis
    by (simp add: nan_processor_columns nan_processor_rows index_def)
qed

text \<open>The labels 1, 3 survive on the \<open>nan_processor\<close> example and 11, 12, 13 on
  \<open>smalldf\<close>.\<close>

theorem filters_preserve_index_and_columns_witness:
  "wf_df smalldf
   \<and> index (nan_processor sentinel_df ''blah'') = [1, 3]
   \<and> columns (nan_processor sentinel_df ''blah'') = [''A'', ''B'', ''C'']
   \<and> (\<exists>out. feature_cleaner smalldf (1/10) (9/10) = Inr out
         \<and> columns out = [''x'', ''y''] \<and> index out = [11, 12, 13]
         \<and> subseq (index out) (index smalldf))"
proof -
  obtain out where out: "feature_cleaner smalldf (1/10) (9/10) = Inr out"
    by (simp add: feature_cleaner_def quantile_small Let_def)
  note t = filters_preserve_index_and_columns
      [of sentinel_df "''blah''" smalldf "1/10" "9/10" out]
  from t have a: "index (nan_processor sentinel_df ''blah'') = [1, 3]"
    and b: "columns (nan_processor sentinel_df ''blah'') = [''A'', ''B'', ''C'']"
    by (simp_all add: sentinel_df_def clean_row_def)
  from t wf_small out quantile_small
  have "columns out = columns smalldf" "subseq (index out) (index smalldf)"
    "index out = map fst (filter (strictly_inside [Some (3/5), Some (9/5)] [Some (17/5), Some (51/5)])
        (rows smalldf))"
    by auto
  then have "columns out = [''x'', ''y'']" "index out = [11, 12, 13]"
     "subseq (index out) (index smalldf)"
    by (simp_all add: smalldf_def strictly_inside_def inside_def)
  with out a b wf_small show ?thesis by simp
qed

lemma quantile_small_reversed:
  "quantile smalldf [9/10, 1/10] = Inr [ [Some (17/5), Some (51/5)], [Some (3/5), Some (9/5)] ]"
  by (simp add: quantile_def reduce_percentile_small)

lemma trimmed_small_reversed:
  "trimmed smalldf [ [Some (17/5), Some (51/5)], [Some (3/5), Some (9/5)] ]
   = \<lparr>columns = [''x'', ''y''], rows = []\<rparr>"
  by (simp add: smalldf_def trimmed_def msk_in_range_def and_mask_def series_lt_df_def
      df_lt_series_def getitem_mask_def dropna_def)

text \<open>
  Claim C9, as the code has it: \<open>feature_cleaner\<close> rejects its input, with the
  \<^verbatim>\<open>ValueError\<close> of the quantile computation, exactly when \<open>low\<close> or \<open>high\<close> lies
  outside the closed interval \<open>[0, 1]\<close>; in every other case, \<open>low \<ge> high\<close>,
  \<open>low = 0\<close> and \<open>high = 1\<close> included, it returns a frame.
\<close>

theorem feature_cleaner_rejects_iff:
  "(feature_cleaner df low high = Inl ValueError) = (low < 0 \<or> 1 < low \<or> high < 0 \<or> 1 < high)
   \<and> (feature_cleaner df low high \<noteq> Inl ValueError \<longrightarrow> (\<exists>out. feature_cleaner df low high = Inr out))"
proof (cases "0 \<le> low \<and> low \<le> 1 \<and> 0 \<le> high \<and> high \<le> 1")
  case True
  then show ?thesis
    by (auto simp: feature_cleaner_def quantile_ok Let_def)
next
  case False
  then have "quantile df [low, high] = Inl ValueError" by (rule quantile_error)
  with False show ?thesis
    by (auto simp: feature_cleaner_def)
qed

text \<open>Fractions -0.1 and 1.1 are rejected; the pairs (0.9, 0.1) and (0, 1) are not.\<close>

theorem feature_cleaner_rejects_iff_witness:
  "feature_cleaner smalldf (- 1/10) (1/2) = Inl ValueError
   \<and> feature_cleaner smalldf (1/2) (11/10) = Inl ValueError
   \<and> feature_cleaner smalldf (9/10) (1/10) \<noteq> Inl ValueError
   \<and> (\<exists>out. feature_cleaner smalldf (9/10) (1/10) = Inr out)
   \<and> feature_cleaner smalldf 0 1 \<noteq> Inl ValueError
   \<and> (\<exists>out. feature_cleaner smalldf 0 1 = Inr out)"
proof -
  have "feature_cleaner smalldf (- 1/10) (1/2) = Inl ValueError"
    and "feature_cleaner smalldf (1/2) (11/10) = Inl ValueError"
    using feature_cleaner_rejects_iff [of smalldf "- 1/10" "1/2"]
      feature_cleaner_rejects_iff [of smalldf "1/2" "11/10"]
    by simp_all
  moreover have r: "feature_cleaner smalldf (9/10) (1/10) \<noteq> Inl ValueError"
    using feature_cleaner_rejects_iff [of smalldf "9/10" "1/10"] by simp
  moreover from r have "\<exists>out. feature_cleaner smalldf (9/10) (1/10) = Inr out"
    using feature_cleaner_rejects_iff [of smalldf "9/10" "1/10"] by blast
  moreover have z: "feature_cleaner smalldf 0 1 \<noteq> Inl ValueError"
    using feature_cleaner_rejects_iff [of smalldf 0 1] by simp
  moreover from z have "\<exists>out. feature_cleaner smalldf 0 1 = Inr out"
    using feature_cleaner_rejects_iff [of smalldf 0 1] by blast
  ultimately show ?thesis by blast
qed

text \<open>
  Claim C9 as stated (every pair with \<open>low \<ge> high\<close> is rejected) fails: with
  \<open>low = 0.9\<close> and \<open>high = 0.1\<close> the function returns a frame, without rows.
\<close>

theorem feature_cleaner_accepts_reversed_counterexample:
  "feature_cleaner smalldf (9/10) (1/10) = Inr \<lparr>columns = [''x'', ''y''], rows = []\<rparr>"
  unfolding feature_cleaner_def quantile_small_reversed sum.case Let_def trimmed_small_reversed
  by (simp add: df_div_series_def df_sub_series_def)

end
